theory Spec2Isabelle
  imports Main "HOL-Library.Word"
begin

unbundle bit_operations_syntax

section \<open>Page structure entries: the constants of \<open>x86_64_paging.h\<close>\<close>

text \<open>
  Every value of the header is a \<open>std::uint64_t\<close>, modelled as a 64-bit word.
  A name \<open>PSE::A::B\<close> of the header is written \<open>A_B\<close>.
\<close>

type_synonym u64 = "64 word"

definition TABLE_BASE_MASK :: u64 where
  "TABLE_BASE_MASK = 0x000FFFFFFFFFF000"

subsection \<open>Namespace \<open>VA\<close>\<close>

definition VA_PML4E_INDEX :: u64 where "VA_PML4E_INDEX = 39"
definition VA_PDPTE_INDEX :: u64 where "VA_PDPTE_INDEX = 30"
definition VA_PDE_INDEX :: u64 where "VA_PDE_INDEX = 21"
definition VA_PTE_INDEX :: u64 where "VA_PTE_INDEX = 12"

definition VA_PSE_MASK :: u64 where "VA_PSE_MASK = 0x1FF"
definition VA_PAGE_OFFSET_4KB_MASK :: u64 where "VA_PAGE_OFFSET_4KB_MASK = 0x0FFF"
definition VA_PAGE_OFFSET_2MB_MASK :: u64 where "VA_PAGE_OFFSET_2MB_MASK = 0x1FFFFF"
definition VA_PAGE_OFFSET_1GB_MASK :: u64 where "VA_PAGE_OFFSET_1GB_MASK = 0x3FFFFFFF"

text \<open>
  \<open>x >> s\<close> and \<open>1ull << s\<close> on \<open>std::uint64_t\<close>; every shift count of the
  header is a constant below 64, so the shifts are the logical ones.
\<close>

definition shr :: "u64 \<Rightarrow> u64 \<Rightarrow> u64" where
  "shr x s = drop_bit (unat s) x"

definition shl :: "u64 \<Rightarrow> u64 \<Rightarrow> u64" where
  "shl x s = push_bit (unat s) x"

subsection \<open>Namespace \<open>CR3\<close>\<close>

definition CR3_PML4_BASE_MASK :: u64 where "CR3_PML4_BASE_MASK = TABLE_BASE_MASK"
definition CR3_PWT :: u64 where "CR3_PWT = shl 1 3"
definition CR3_PCD :: u64 where "CR3_PCD = shl 1 4"

subsection \<open>Namespace \<open>PML4E\<close>\<close>

definition PML4E_PDPTE_ADDRESS_MASK :: u64 where "PML4E_PDPTE_ADDRESS_MASK = TABLE_BASE_MASK"
definition PML4E_PRESENT :: u64 where "PML4E_PRESENT = shl 1 0"
definition PML4E_RW :: u64 where "PML4E_RW = shl 1 1"
definition PML4E_US :: u64 where "PML4E_US = shl 1 2"
definition PML4E_PWT :: u64 where "PML4E_PWT = shl 1 3"
definition PML4E_PCD :: u64 where "PML4E_PCD = shl 1 4"
definition PML4E_A :: u64 where "PML4E_A = shl 1 5"
definition PML4E_R :: u64 where "PML4E_R = shl 1 11"
definition PML4E_XD :: u64 where "PML4E_XD = shl 1 63"

definition PML4E_GET_INDEX :: "u64 \<Rightarrow> u64" where
  "PML4E_GET_INDEX virtual_address = (shr virtual_address VA_PML4E_INDEX) AND VA_PSE_MASK"

definition PML4E_GET_TABLE_BASE :: "u64 \<Rightarrow> u64" where
  "PML4E_GET_TABLE_BASE cr3 = cr3 AND CR3_PML4_BASE_MASK"

definition PML4E_GET_ADDRESS :: "u64 \<Rightarrow> u64 \<Rightarrow> u64" where
  "PML4E_GET_ADDRESS cr3 virtual_address =
     PML4E_GET_TABLE_BASE cr3 OR (PML4E_GET_INDEX virtual_address * 8)"

subsection \<open>Namespace \<open>PDPTE\<close>\<close>

definition PDPTE_PDE_ADDRESS_MASK :: u64 where "PDPTE_PDE_ADDRESS_MASK = TABLE_BASE_MASK"
definition PDPTE_PRESENT :: u64 where "PDPTE_PRESENT = shl 1 0"
definition PDPTE_RW :: u64 where "PDPTE_RW = shl 1 1"
definition PDPTE_US :: u64 where "PDPTE_US = shl 1 2"
definition PDPTE_PWT :: u64 where "PDPTE_PWT = shl 1 3"
definition PDPTE_PCD :: u64 where "PDPTE_PCD = shl 1 4"
definition PDPTE_A :: u64 where "PDPTE_A = shl 1 5"
definition PDPTE_PS :: u64 where "PDPTE_PS = shl 1 7"
definition PDPTE_R :: u64 where "PDPTE_R = shl 1 11"
definition PDPTE_XD :: u64 where "PDPTE_XD = shl 1 63"

definition PDPTE_GB_PHYS_ADDRESS_MASK :: u64 where
  "PDPTE_GB_PHYS_ADDRESS_MASK = 0x000FFFFFC0000000"
definition PDPTE_GB_D :: u64 where "PDPTE_GB_D = shl 1 6"
definition PDPTE_GB_G :: u64 where "PDPTE_GB_G = shl 1 8"
definition PDPTE_GB_PAT :: u64 where "PDPTE_GB_PAT = shl 1 12"
definition PDPTE_GB_PKE :: u64 where "PDPTE_GB_PKE = shl 1 59"

definition PDPTE_GB_GET_ADDRESS :: "u64 \<Rightarrow> u64 \<Rightarrow> u64" where
  "PDPTE_GB_GET_ADDRESS pdpte virtual_address =
     (pdpte AND PDPTE_GB_PHYS_ADDRESS_MASK) OR (virtual_address AND VA_PAGE_OFFSET_1GB_MASK)"

definition PDPTE_GET_INDEX :: "u64 \<Rightarrow> u64" where
  "PDPTE_GET_INDEX virtual_address = (shr virtual_address VA_PDPTE_INDEX) AND VA_PSE_MASK"

definition PDPTE_GET_TABLE_BASE :: "u64 \<Rightarrow> u64" where
  "PDPTE_GET_TABLE_BASE pml4e = pml4e AND PML4E_PDPTE_ADDRESS_MASK"

definition PDPTE_GET_ADDRESS :: "u64 \<Rightarrow> u64 \<Rightarrow> u64" where
  "PDPTE_GET_ADDRESS pml4e virtual_address =
     PDPTE_GET_TABLE_BASE pml4e OR (PDPTE_GET_INDEX virtual_address * 8)"

text \<open>The \<open>bool\<close> returned is the conversion of \<open>pdpte & PS\<close>: true when it is not zero.\<close>

definition PDPTE_IS_LARGE_PAGE :: "u64 \<Rightarrow> bool" where
  "PDPTE_IS_LARGE_PAGE pdpte = (pdpte AND PDPTE_PS \<noteq> 0)"

subsection \<open>Namespace \<open>PDE\<close>\<close>

definition PDE_PTE_ADDRESS_MASK :: u64 where "PDE_PTE_ADDRESS_MASK = TABLE_BASE_MASK"
definition PDE_PRESENT :: u64 where "PDE_PRESENT = shl 1 0"
definition PDE_RW :: u64 where "PDE_RW = shl 1 1"
definition PDE_US :: u64 where "PDE_US = shl 1 2"
definition PDE_PWT :: u64 where "PDE_PWT = shl 1 3"
definition PDE_PCD :: u64 where "PDE_PCD = shl 1 4"
definition PDE_A :: u64 where "PDE_A = shl 1 5"
definition PDE_PS :: u64 where "PDE_PS = shl 1 7"
definition PDE_R :: u64 where "PDE_R = shl 1 11"
definition PDE_XD :: u64 where "PDE_XD = shl 1 63"

definition PDE_MB_PHYS_ADDRESS_MASK :: u64 where
  "PDE_MB_PHYS_ADDRESS_MASK = 0x000FFFFFFFE00000"
definition PDE_MB_D :: u64 where "PDE_MB_D = shl 1 6"
definition PDE_MB_G :: u64 where "PDE_MB_G = shl 1 8"
definition PDE_MB_PAT :: u64 where "PDE_MB_PAT = shl 1 12"
definition PDE_MB_PKE :: u64 where "PDE_MB_PKE = shl 1 59"

definition PDE_MB_GET_ADDRESS :: "u64 \<Rightarrow> u64 \<Rightarrow> u64" where
  "PDE_MB_GET_ADDRESS pde virtual_address =
     (pde AND PDE_MB_PHYS_ADDRESS_MASK) OR (virtual_address AND VA_PAGE_OFFSET_2MB_MASK)"

definition PDE_GET_INDEX :: "u64 \<Rightarrow> u64" where
  "PDE_GET_INDEX virtual_address = (shr virtual_address VA_PDE_INDEX) AND VA_PSE_MASK"

definition PDE_GET_TABLE_BASE :: "u64 \<Rightarrow> u64" where
  "PDE_GET_TABLE_BASE pdpte = pdpte AND PDPTE_PDE_ADDRESS_MASK"

definition PDE_GET_ADDRESS :: "u64 \<Rightarrow> u64 \<Rightarrow> u64" where
  "PDE_GET_ADDRESS pdpte virtual_address =
     PDE_GET_TABLE_BASE pdpte OR (PDE_GET_INDEX virtual_address * 8)"

definition PDE_IS_LARGE_PAGE :: "u64 \<Rightarrow> bool" where
  "PDE_IS_LARGE_PAGE pde = (pde AND PDE_PS \<noteq> 0)"

subsection \<open>Namespace \<open>PTE\<close>\<close>

definition PTE_PHYS_ADDRESS_MASK :: u64 where "PTE_PHYS_ADDRESS_MASK = TABLE_BASE_MASK"
definition PTE_PRESENT :: u64 where "PTE_PRESENT = shl 1 0"
definition PTE_RW :: u64 where "PTE_RW = shl 1 1"
definition PTE_US :: u64 where "PTE_US = shl 1 2"
definition PTE_PWT :: u64 where "PTE_PWT = shl 1 3"
definition PTE_PCD :: u64 where "PTE_PCD = shl 1 4"
definition PTE_A :: u64 where "PTE_A = shl 1 5"
definition PTE_D :: u64 where "PTE_D = shl 1 6"
definition PTE_PAT :: u64 where "PTE_PAT = shl 1 7"
definition PTE_G :: u64 where "PTE_G = shl 1 8"
definition PTE_R :: u64 where "PTE_R = shl 1 11"
definition PTE_PKE :: u64 where "PTE_PKE = shl 1 59"
definition PTE_XD :: u64 where "PTE_XD = shl 1 63"

definition PTE_GET_INDEX :: "u64 \<Rightarrow> u64" where
  "PTE_GET_INDEX virtual_address = (shr virtual_address VA_PTE_INDEX) AND VA_PSE_MASK"

definition PTE_GET_TABLE_BASE :: "u64 \<Rightarrow> u64" where
  "PTE_GET_TABLE_BASE pde = pde AND PDE_PTE_ADDRESS_MASK"

definition PTE_GET_ADDRESS :: "u64 \<Rightarrow> u64 \<Rightarrow> u64" where
  "PTE_GET_ADDRESS pde virtual_address =
     PTE_GET_TABLE_BASE pde OR (PTE_GET_INDEX virtual_address * 8)"

subsection \<open>Namespace \<open>PE\<close>\<close>

definition PE_GET_ADDRESS :: "u64 \<Rightarrow> u64 \<Rightarrow> u64" where
  "PE_GET_ADDRESS pte virtual_address =
     (pte AND PTE_PHYS_ADDRESS_MASK) OR (virtual_address AND VA_PAGE_OFFSET_4KB_MASK)"


section \<open>The entry decoder and the walker\<close>

text \<open>
  The header holds the constants and the accessors only; it has no function that
  decodes an entry by level and none that walks the tables. The definitions of this
  section follow sections 3, 4.2, 4.3 and 7 of the specification, on top of the
  header's accessors.
\<close>

text \<open>Modelled from the spec: the four levels \<open>{PML4E, PDPTE, PDE, PTE}\<close> of a
  \<open>PagingEntry\<close>, named as the faults name them; the header has no such type.\<close>

datatype level = PML4 | PDPTE | PDE | PTE

text \<open>Modelled from the spec: \<open>page_size \<in> {4KiB, 2MiB, 1GiB}\<close>; absent from the header.\<close>

datatype page_size = Page_4KiB | Page_2MiB | Page_1GiB

text \<open>Modelled from the spec: the fault taxonomy of section 7, \<open>NotPresent\<close> and
  \<open>ReadError\<close> with the underlying cause of the failed read; absent from the header.\<close>

datatype 'c reason = NotPresent | ReadError 'c

text \<open>Modelled from the spec: \<open>TranslationOutcome\<close>, either
  \<open>Resolved{physical_address, page_size, effective_flags}\<close> or \<open>Fault{level, reason}\<close>;
  absent from the header.\<close>

datatype 'c TranslationOutcome =
    Resolved (physical_address: u64) (page_size: page_size) (effective_flags: u64)
  | Fault (level: level) (reason: "'c reason")

text \<open>Modelled from the spec: \<open>ReadCapability\<close>, "a function from physical address to an
  8-byte value, fallible"; \<open>Inl\<close> is the failure with its cause. Absent from the header.\<close>

type_synonym 'c ReadCapability = "u64 \<Rightarrow> 'c + u64"

text \<open>Modelled from the spec: the result
  \<open>{present, is_leaf, next_or_frame_base, flags}\<close> of \<open>decode\<close>; absent from the header.\<close>

record decoded =
  present :: bool
  is_leaf :: bool
  next_or_frame_base :: u64
  flags :: u64

text \<open>Modelled from the spec: the Present flag of an entry by level ("\<open>present\<close> = bit 0
  set"), read with the \<open>PRESENT\<close> constant of that level's namespace, as the comment
  at the head of the header does (\<open>PDPTE & PSE::PDPTE::PRESENT\<close>); the header has no
  function for it.\<close>

fun PRESENT :: "level \<Rightarrow> u64" where
  "PRESENT PML4 = PML4E_PRESENT"
| "PRESENT PDPTE = PDPTE_PRESENT"
| "PRESENT PDE = PDE_PRESENT"
| "PRESENT PTE = PTE_PRESENT"

text \<open>Modelled from the spec: \<open>decode(level, entry_value)\<close> of section 4.2, absent from
  the header. \<open>is_leaf\<close> is true unconditionally for a PTE, the PageSize bit for a PDPTE
  and a PDE (the header's \<open>IS_LARGE_PAGE\<close>), always false for a PML4E. The address is
  masked with the table base mask when the entry is not a leaf, with the 1 GiB mask
  (PDPTE), the 2 MiB mask (PDE) or the table base mask (PTE) when it is. The flags are
  surfaced unmodified: the raw entry value.\<close>

definition decode :: "level \<Rightarrow> u64 \<Rightarrow> decoded" where
  "decode lv entry_value =
     (let leaf = (case lv of
                    PML4 \<Rightarrow> False
                  | PDPTE \<Rightarrow> PDPTE_IS_LARGE_PAGE entry_value
                  | PDE \<Rightarrow> PDE_IS_LARGE_PAGE entry_value
                  | PTE \<Rightarrow> True);
          leaf_mask = (case lv of
                    PML4 \<Rightarrow> TABLE_BASE_MASK
                  | PDPTE \<Rightarrow> PDPTE_GB_PHYS_ADDRESS_MASK
                  | PDE \<Rightarrow> PDE_MB_PHYS_ADDRESS_MASK
                  | PTE \<Rightarrow> PTE_PHYS_ADDRESS_MASK)
      in \<lparr> present = (entry_value AND PRESENT lv \<noteq> 0),
           is_leaf = leaf,
           next_or_frame_base =
             (if leaf then entry_value AND leaf_mask else entry_value AND TABLE_BASE_MASK),
           flags = entry_value \<rparr>)"

text \<open>Modelled from the spec: \<open>compute_entry_address(table_base, index)\<close>, the
  composition \<open>table_base | (index * 8)\<close>; the header has it only inlined in each
  level's \<open>GET_ADDRESS\<close>.\<close>

definition compute_entry_address :: "u64 \<Rightarrow> u64 \<Rightarrow> u64" where
  "compute_entry_address table_base index = table_base OR (index * 8)"

text \<open>Modelled from the spec: step 4 of the walker (section 4.3), absent from the header.
  A PTE is always a leaf. Each step returns the outcome together with the addresses it
  passed to the read capability, in order.\<close>

definition PTE_step ::
  "'c ReadCapability \<Rightarrow> u64 \<Rightarrow> u64 \<Rightarrow> 'c TranslationOutcome \<times> u64 list" where
  "PTE_step read va table_base =
     (let a = compute_entry_address table_base (PTE_GET_INDEX va) in
      case read a of
        Inl cause \<Rightarrow> (Fault PTE (ReadError cause), [a])
      | Inr e \<Rightarrow>
          (let d = decode PTE e in
           if \<not> present d then (Fault PTE NotPresent, [a])
           else (Resolved (next_or_frame_base d OR (va AND VA_PAGE_OFFSET_4KB_MASK))
                   Page_4KiB (flags d), [a])))"

text \<open>Modelled from the spec: step 3 of the walker, absent from the header. A leaf PDE
  resolves a 2 MiB page; otherwise the walk continues at the PTE step.\<close>

definition PDE_step ::
  "'c ReadCapability \<Rightarrow> u64 \<Rightarrow> u64 \<Rightarrow> 'c TranslationOutcome \<times> u64 list" where
  "PDE_step read va table_base =
     (let a = compute_entry_address table_base (PDE_GET_INDEX va) in
      case read a of
        Inl cause \<Rightarrow> (Fault PDE (ReadError cause), [a])
      | Inr e \<Rightarrow>
          (let d = decode PDE e in
           if \<not> present d then (Fault PDE NotPresent, [a])
           else if is_leaf d then
             (Resolved (next_or_frame_base d OR (va AND VA_PAGE_OFFSET_2MB_MASK))
                Page_2MiB (flags d), [a])
           else (let (outcome, reads) = PTE_step read va (next_or_frame_base d)
                 in (outcome, a # reads))))"

text \<open>Modelled from the spec: step 2 of the walker, absent from the header. A leaf PDPTE
  resolves a 1 GiB page; otherwise the walk continues at the PDE step.\<close>

definition PDPTE_step ::
  "'c ReadCapability \<Rightarrow> u64 \<Rightarrow> u64 \<Rightarrow> 'c TranslationOutcome \<times> u64 list" where
  "PDPTE_step read va table_base =
     (let a = compute_entry_address table_base (PDPTE_GET_INDEX va) in
      case read a of
        Inl cause \<Rightarrow> (Fault PDPTE (ReadError cause), [a])
      | Inr e \<Rightarrow>
          (let d = decode PDPTE e in
           if \<not> present d then (Fault PDPTE NotPresent, [a])
           else if is_leaf d then
             (Resolved (next_or_frame_base d OR (va AND VA_PAGE_OFFSET_1GB_MASK))
                Page_1GiB (flags d), [a])
           else (let (outcome, reads) = PDE_step read va (next_or_frame_base d)
                 in (outcome, a # reads))))"

text \<open>Modelled from the spec: step 1 of the walker, absent from the header. The entry
  address is \<open>table_base_mask(root) | (pml4_index(va) * 8)\<close>; a PML4E is never a leaf, so
  a present entry always continues at the PDPTE step.\<close>

definition PML4_step ::
  "'c ReadCapability \<Rightarrow> u64 \<Rightarrow> u64 \<Rightarrow> 'c TranslationOutcome \<times> u64 list" where
  "PML4_step read va table_root =
     (let a = compute_entry_address (table_root AND TABLE_BASE_MASK) (PML4E_GET_INDEX va) in
      case read a of
        Inl cause \<Rightarrow> (Fault PML4 (ReadError cause), [a])
      | Inr e \<Rightarrow>
          (let d = decode PML4 e in
           if \<not> present d then (Fault PML4 NotPresent, [a])
           else (let (outcome, reads) = PDPTE_step read va (next_or_frame_base d)
                 in (outcome, a # reads))))"

text \<open>Modelled from the spec: \<open>translate(table_root, virtual_address, read)\<close> of section
  6, absent from the header, and the list of the reads the same walk performs.\<close>

definition translate :: "u64 \<Rightarrow> u64 \<Rightarrow> 'c ReadCapability \<Rightarrow> 'c TranslationOutcome" where
  "translate table_root virtual_address read = fst (PML4_step read virtual_address table_root)"

definition translate_reads :: "u64 \<Rightarrow> u64 \<Rightarrow> 'c ReadCapability \<Rightarrow> u64 list" where
  "translate_reads table_root virtual_address read =
     snd (PML4_step read virtual_address table_root)"

section \<open>Bit-level facts about the constants and accessors\<close>

lemma shr_numeral:
  "shr x 39 = drop_bit 39 x" "shr x 30 = drop_bit 30 x"
  "shr x 21 = drop_bit 21 x" "shr x 12 = drop_bit 12 x"
  by (simp_all add: shr_def)

lemma TABLE_BASE_MASK_eq: "TABLE_BASE_MASK = push_bit 12 (mask 40)"
  by (simp add: TABLE_BASE_MASK_def mask_eq_exp_minus_1 push_bit_eq_mult)

lemma GB_PHYS_ADDRESS_MASK_eq: "PDPTE_GB_PHYS_ADDRESS_MASK = push_bit 30 (mask 22)"
  by (simp add: PDPTE_GB_PHYS_ADDRESS_MASK_def mask_eq_exp_minus_1 push_bit_eq_mult)

lemma MB_PHYS_ADDRESS_MASK_eq: "PDE_MB_PHYS_ADDRESS_MASK = push_bit 21 (mask 31)"
  by (simp add: PDE_MB_PHYS_ADDRESS_MASK_def mask_eq_exp_minus_1 push_bit_eq_mult)

lemma VA_masks_eq:
  "VA_PSE_MASK = mask 9" "VA_PAGE_OFFSET_4KB_MASK = mask 12"
  "VA_PAGE_OFFSET_2MB_MASK = mask 21" "VA_PAGE_OFFSET_1GB_MASK = mask 30"
  by (simp_all add: VA_PSE_MASK_def VA_PAGE_OFFSET_4KB_MASK_def VA_PAGE_OFFSET_2MB_MASK_def
      VA_PAGE_OFFSET_1GB_MASK_def mask_eq_exp_minus_1)

lemma address_masks_eq:
  "CR3_PML4_BASE_MASK = TABLE_BASE_MASK" "PML4E_PDPTE_ADDRESS_MASK = TABLE_BASE_MASK"
  "PDPTE_PDE_ADDRESS_MASK = TABLE_BASE_MASK" "PDE_PTE_ADDRESS_MASK = TABLE_BASE_MASK"
  "PTE_PHYS_ADDRESS_MASK = TABLE_BASE_MASK"
  by (simp_all add: CR3_PML4_BASE_MASK_def PML4E_PDPTE_ADDRESS_MASK_def
      PDPTE_PDE_ADDRESS_MASK_def PDE_PTE_ADDRESS_MASK_def PTE_PHYS_ADDRESS_MASK_def)

lemma bit_TABLE_BASE_MASK: "bit TABLE_BASE_MASK n = (12 \<le> n \<and> n < 52)"
  by (auto simp add: TABLE_BASE_MASK_eq bit_simps)

lemma bit_GB_PHYS_ADDRESS_MASK: "bit PDPTE_GB_PHYS_ADDRESS_MASK n = (30 \<le> n \<and> n < 52)"
  by (auto simp add: GB_PHYS_ADDRESS_MASK_eq bit_simps)

lemma bit_MB_PHYS_ADDRESS_MASK: "bit PDE_MB_PHYS_ADDRESS_MASK n = (21 \<le> n \<and> n < 52)"
  by (auto simp add: MB_PHYS_ADDRESS_MASK_eq bit_simps)

lemma bit_GET_INDEX:
  "bit (PML4E_GET_INDEX va) n = (n < 9 \<and> bit va (39 + n))"
  "bit (PDPTE_GET_INDEX va) n = (n < 9 \<and> bit va (30 + n))"
  "bit (PDE_GET_INDEX va) n = (n < 9 \<and> bit va (21 + n))"
  "bit (PTE_GET_INDEX va) n = (n < 9 \<and> bit va (12 + n))"
  by (auto simp add: PML4E_GET_INDEX_def PDPTE_GET_INDEX_def PDE_GET_INDEX_def PTE_GET_INDEX_def
      VA_PML4E_INDEX_def VA_PDPTE_INDEX_def VA_PDE_INDEX_def VA_PTE_INDEX_def shr_numeral
      VA_masks_eq bit_simps)

lemma GET_INDEX_le:
  "PML4E_GET_INDEX va \<le> 511" "PDPTE_GET_INDEX va \<le> 511"
  "PDE_GET_INDEX va \<le> 511" "PTE_GET_INDEX va \<le> 511"
  unfolding PML4E_GET_INDEX_def PDPTE_GET_INDEX_def PDE_GET_INDEX_def PTE_GET_INDEX_def
    VA_PSE_MASK_def
  by (rule word_and_le1)+

lemma GET_TABLE_BASE_eq:
  "PML4E_GET_TABLE_BASE x = x AND TABLE_BASE_MASK"
  "PDPTE_GET_TABLE_BASE x = x AND TABLE_BASE_MASK"
  "PDE_GET_TABLE_BASE x = x AND TABLE_BASE_MASK"
  "PTE_GET_TABLE_BASE x = x AND TABLE_BASE_MASK"
  by (simp_all add: PML4E_GET_TABLE_BASE_def PDPTE_GET_TABLE_BASE_def PDE_GET_TABLE_BASE_def
      PTE_GET_TABLE_BASE_def address_masks_eq)

lemma bit_table_base: "bit (x AND TABLE_BASE_MASK) n = (12 \<le> n \<and> n < 52 \<and> bit x n)"
  by (auto simp add: bit_and_iff bit_TABLE_BASE_MASK)

lemma PS_eq: "PDPTE_PS = 2 ^ 7" "PDE_PS = 2 ^ 7"
  by (simp_all add: PDPTE_PS_def PDE_PS_def shl_def)

lemma IS_LARGE_PAGE_bit: "PDPTE_IS_LARGE_PAGE e = bit e 7" "PDE_IS_LARGE_PAGE e = bit e 7"
  unfolding PDPTE_IS_LARGE_PAGE_def PDE_IS_LARGE_PAGE_def PS_eq
  by (simp_all only: and_exp_eq_0_iff_not_bit not_not)

text \<open>
  An entry address built from any input \<open>x\<close> and any index of at most 511: the scaled
  index occupies bits 11:3 only, so the OR is an addition without carry.
\<close>

lemma bit_scaled_index:
  fixes idx :: u64
  assumes "idx \<le> 511" and "bit (idx * 8) n"
  shows "3 \<le> n \<and> n < 12"
proof -
  have "idx < 2 ^ 9" using assms(1) by (simp add: word_le_nat_alt word_less_nat_alt)
  then have "take_bit 9 idx = idx" by (simp add: take_bit_eq_mask less_mask_eq)
  then have "idx * 8 = push_bit 3 (take_bit 9 idx)" by (simp add: push_bit_eq_mult)
  with assms(2) show ?thesis by (auto simp add: bit_simps)
qed

lemma entry_disjoint:
  fixes x idx :: u64
  assumes "idx \<le> 511"
  shows "(x AND TABLE_BASE_MASK) AND (idx * 8) = 0"
proof (rule bit_eqI)
  fix n
  show "bit ((x AND TABLE_BASE_MASK) AND (idx * 8)) n = bit (0 :: u64) n"
    using bit_scaled_index [OF assms, of n]
    by (auto simp add: bit_and_iff bit_TABLE_BASE_MASK)
qed

lemma entry_or_add:
  fixes x idx :: u64
  assumes "idx \<le> 511"
  shows "(x AND TABLE_BASE_MASK) OR (idx * 8) = (x AND TABLE_BASE_MASK) + idx * 8"
  using entry_disjoint [OF assms, of x] by (simp add: disjunctive_add_eq_or)

lemma entry_aligned:
  fixes x idx :: u64
  assumes "idx \<le> 511"
  shows "((x AND TABLE_BASE_MASK) OR (idx * 8)) AND 7 = 0"
proof -
  have m: "(7 :: u64) = mask 3" by (simp add: mask_eq_exp_minus_1)
  show ?thesis
    unfolding m
  proof (rule bit_eqI)
    fix n
    show "bit (((x AND TABLE_BASE_MASK) OR (idx * 8)) AND mask 3) n = bit (0 :: u64) n"
      using bit_scaled_index [OF assms, of n]
      by (auto simp add: bit_and_iff bit_or_iff bit_mask_iff bit_TABLE_BASE_MASK)
  qed
qed

lemma entry_high_clear:
  fixes x idx :: u64
  assumes "idx \<le> 511"
  shows "((x AND TABLE_BASE_MASK) OR (idx * 8)) AND 0xFFF0000000000000 = 0"
proof -
  have m: "(0xFFF0000000000000 :: u64) = push_bit 52 (mask 12)"
    by (simp add: mask_eq_exp_minus_1 push_bit_eq_mult)
  show ?thesis
    unfolding m
  proof (rule bit_eqI)
    fix n
    show "bit (((x AND TABLE_BASE_MASK) OR (idx * 8)) AND push_bit 52 (mask 12)) n = bit (0 :: u64) n"
      using bit_scaled_index [OF assms, of n]
      by (auto simp add: bit_and_iff bit_or_iff bit_mask_iff bit_push_bit_iff bit_TABLE_BASE_MASK)
  qed
qed

lemma entry_unat:
  fixes x idx :: u64
  assumes "idx \<le> 511"
  shows "unat ((x AND TABLE_BASE_MASK) OR (idx * 8)) = unat (x AND TABLE_BASE_MASK) + 8 * unat idx"
proof -
  have "x AND TABLE_BASE_MASK \<le> 0x000FFFFFFFFFF000"
    unfolding TABLE_BASE_MASK_def by (rule word_and_le1)
  then have b: "unat (x AND TABLE_BASE_MASK) \<le> 0x000FFFFFFFFFF000"
    by (simp add: word_le_nat_alt)
  have i: "unat idx \<le> 511" using assms by (simp add: word_le_nat_alt)
  then have s: "unat (idx * 8) = 8 * unat idx" by (simp add: unat_word_ariths)
  have "unat (x AND TABLE_BASE_MASK) + unat (idx * 8) < 2 ^ LENGTH(64)"
    using b i s by simp
  then have "unat ((x AND TABLE_BASE_MASK) + idx * 8) = unat (x AND TABLE_BASE_MASK) + unat (idx * 8)"
    by (simp only: unat_add_lem)
  then show ?thesis by (simp add: entry_or_add [OF assms] s)
qed

lemma table_base_page_aligned: "(x AND TABLE_BASE_MASK) AND 0xFFF = 0"
proof -
  have m: "(0xFFF :: u64) = mask 12" by (simp add: mask_eq_exp_minus_1)
  show ?thesis unfolding m
    by (rule bit_eqI) (auto simp add: bit_and_iff bit_mask_iff bit_TABLE_BASE_MASK)
qed

lemma table_base_high_clear: "(x AND TABLE_BASE_MASK) AND 0xFFF0000000000000 = 0"
proof -
  have m: "(0xFFF0000000000000 :: u64) = push_bit 52 (mask 12)"
    by (simp add: mask_eq_exp_minus_1 push_bit_eq_mult)
  show ?thesis unfolding m
    by (rule bit_eqI) (auto simp add: bit_and_iff bit_mask_iff bit_push_bit_iff bit_TABLE_BASE_MASK)
qed

lemma leaf_high_clear:
  "PDPTE_GB_GET_ADDRESS e va AND 0xFFF0000000000000 = 0"
  "PDE_MB_GET_ADDRESS e va AND 0xFFF0000000000000 = 0"
  "PE_GET_ADDRESS e va AND 0xFFF0000000000000 = 0"
proof -
  have m: "(0xFFF0000000000000 :: u64) = push_bit 52 (mask 12)"
    by (simp add: mask_eq_exp_minus_1 push_bit_eq_mult)
  show "PDPTE_GB_GET_ADDRESS e va AND 0xFFF0000000000000 = 0"
    unfolding m PDPTE_GB_GET_ADDRESS_def VA_masks_eq
    by (rule bit_eqI)
      (auto simp add: bit_and_iff bit_or_iff bit_mask_iff bit_push_bit_iff bit_GB_PHYS_ADDRESS_MASK)
  show "PDE_MB_GET_ADDRESS e va AND 0xFFF0000000000000 = 0"
    unfolding m PDE_MB_GET_ADDRESS_def VA_masks_eq
    by (rule bit_eqI)
      (auto simp add: bit_and_iff bit_or_iff bit_mask_iff bit_push_bit_iff bit_MB_PHYS_ADDRESS_MASK)
  show "PE_GET_ADDRESS e va AND 0xFFF0000000000000 = 0"
    unfolding m PE_GET_ADDRESS_def VA_masks_eq address_masks_eq
    by (rule bit_eqI)
      (auto simp add: bit_and_iff bit_or_iff bit_mask_iff bit_push_bit_iff bit_TABLE_BASE_MASK)
qed

lemma index_fields_join:
  "push_bit 39 (PML4E_GET_INDEX va) OR push_bit 30 (PDPTE_GET_INDEX va)
     OR push_bit 21 (PDE_GET_INDEX va) OR push_bit 12 (PTE_GET_INDEX va)
     OR (va AND 0xFFF) = va AND 0x0000FFFFFFFFFFFF"
proof -
  have m: "(0xFFF :: u64) = mask 12" "(0x0000FFFFFFFFFFFF :: u64) = mask 48"
    by (simp_all add: mask_eq_exp_minus_1)
  show ?thesis
    unfolding m
  proof (rule bit_eqI)
    fix n :: nat
    have "n < 12 \<or> (12 \<le> n \<and> n < 21) \<or> (21 \<le> n \<and> n < 30) \<or> (30 \<le> n \<and> n < 39)
        \<or> (39 \<le> n \<and> n < 48) \<or> 48 \<le> n" by arith
    then show "bit (push_bit 39 (PML4E_GET_INDEX va) OR push_bit 30 (PDPTE_GET_INDEX va)
       OR push_bit 21 (PDE_GET_INDEX va) OR push_bit 12 (PTE_GET_INDEX va)
       OR (va AND mask 12)) n = bit (va AND mask 48) n"
      by (auto simp add: bit_and_iff bit_or_iff bit_mask_iff bit_push_bit_iff bit_GET_INDEX)
  qed
qed

lemma GET_ADDRESS_eq:
  "PML4E_GET_ADDRESS x va = (x AND TABLE_BASE_MASK) OR (PML4E_GET_INDEX va * 8)"
  "PDPTE_GET_ADDRESS x va = (x AND TABLE_BASE_MASK) OR (PDPTE_GET_INDEX va * 8)"
  "PDE_GET_ADDRESS x va = (x AND TABLE_BASE_MASK) OR (PDE_GET_INDEX va * 8)"
  "PTE_GET_ADDRESS x va = (x AND TABLE_BASE_MASK) OR (PTE_GET_INDEX va * 8)"
  by (simp_all add: PML4E_GET_ADDRESS_def PDPTE_GET_ADDRESS_def PDE_GET_ADDRESS_def
      PTE_GET_ADDRESS_def GET_TABLE_BASE_eq)

lemma unat_GET_INDEX_le:
  "unat (PML4E_GET_INDEX va) \<le> 511" "unat (PDPTE_GET_INDEX va) \<le> 511"
  "unat (PDE_GET_INDEX va) \<le> 511" "unat (PTE_GET_INDEX va) \<le> 511"
  using GET_INDEX_le [of va] by (simp_all add: word_le_nat_alt)

lemma leaf_bits:
  "bit (PDPTE_GB_GET_ADDRESS e va) n = (if n < 30 then bit va n else n < 52 \<and> bit e n)"
  "bit (PDE_MB_GET_ADDRESS e va) n = (if n < 21 then bit va n else n < 52 \<and> bit e n)"
  "bit (PE_GET_ADDRESS e va) n = (if n < 12 then bit va n else n < 52 \<and> bit e n)"
  by (auto simp add: PDPTE_GB_GET_ADDRESS_def PDE_MB_GET_ADDRESS_def PE_GET_ADDRESS_def
      VA_masks_eq address_masks_eq bit_and_iff bit_or_iff bit_mask_iff
      bit_GB_PHYS_ADDRESS_MASK bit_MB_PHYS_ADDRESS_MASK bit_TABLE_BASE_MASK
      dest: bit_imp_le_length)

section \<open>Properties of the header\<close>

text \<open>
  C1. For every leaf entry value and every virtual address, the resolved physical address
  is \<open>(leaf_entry & leaf_phys_mask) | (virtual_address & offset_mask)\<close> at each
  granularity: \<open>PDPTE::GB::GET_ADDRESS\<close> with the 1 GiB pair of masks,
  \<open>PDE::MB::GET_ADDRESS\<close> with the 2 MiB pair, \<open>PE::GET_ADDRESS\<close> with the table base
  mask and \<open>0xFFF\<close>. Bit by bit: the offset bits are those of the virtual address, the
  bits above them up to bit 51 are those of the entry, and no other bit is set.
\<close>

theorem leaf_GET_ADDRESS_formula:
  "PDPTE_GB_GET_ADDRESS leaf_entry va
     = (leaf_entry AND 0x000FFFFFC0000000) OR (va AND 0x3FFFFFFF)
   \<and> PDE_MB_GET_ADDRESS leaf_entry va
     = (leaf_entry AND 0x000FFFFFFFE00000) OR (va AND 0x1FFFFF)
   \<and> PE_GET_ADDRESS leaf_entry va
     = (leaf_entry AND TABLE_BASE_MASK) OR (va AND 0xFFF)
   \<and> bit (PDPTE_GB_GET_ADDRESS leaf_entry va) n
     = (if n < 30 then bit va n else n < 52 \<and> bit leaf_entry n)
   \<and> bit (PDE_MB_GET_ADDRESS leaf_entry va) n
     = (if n < 21 then bit va n else n < 52 \<and> bit leaf_entry n)
   \<and> bit (PE_GET_ADDRESS leaf_entry va) n
     = (if n < 12 then bit va n else n < 52 \<and> bit leaf_entry n)"
  by (simp add: leaf_bits)
    (simp add: PDPTE_GB_GET_ADDRESS_def PDE_MB_GET_ADDRESS_def PE_GET_ADDRESS_def
      PDPTE_GB_PHYS_ADDRESS_MASK_def PDE_MB_PHYS_ADDRESS_MASK_def PTE_PHYS_ADDRESS_MASK_def
      VA_PAGE_OFFSET_1GB_MASK_def VA_PAGE_OFFSET_2MB_MASK_def VA_PAGE_OFFSET_4KB_MASK_def)

text \<open>
  C2. For every 64-bit virtual address, the four index fields shifted back to their
  positions (39, 30, 21 and 12) and OR-ed with the low 12 bits of the address give
  exactly the low 48 bits of the address.
\<close>

theorem index_fields_roundtrip:
  "shl (PML4E_GET_INDEX va) VA_PML4E_INDEX OR shl (PDPTE_GET_INDEX va) VA_PDPTE_INDEX
     OR shl (PDE_GET_INDEX va) VA_PDE_INDEX OR shl (PTE_GET_INDEX va) VA_PTE_INDEX
     OR (va AND 0xFFF)
   = va AND 0x0000FFFFFFFFFFFF"
  using index_fields_join [of va]
  by (simp add: shl_def VA_PML4E_INDEX_def VA_PDPTE_INDEX_def VA_PDE_INDEX_def
      VA_PTE_INDEX_def)

text \<open>
  C3. For every input value and every virtual address, the entry-address computation
  \<open>GET_ADDRESS\<close> of each level (PML4E, PDPTE, PDE, PTE) is the page-aligned table base
  (the input masked with the table base mask) OR-ed with the index times 8, where the
  index is below 512. The result is 8-byte aligned, and the 8-byte entry at it lies
  within the 4 KiB table that starts at the base.
\<close>

theorem entry_GET_ADDRESS_in_table:
  "PML4E_GET_ADDRESS cr3 va = (cr3 AND TABLE_BASE_MASK) OR (PML4E_GET_INDEX va * 8)
   \<and> (cr3 AND TABLE_BASE_MASK) AND 0xFFF = 0
   \<and> unat (PML4E_GET_INDEX va) < 512
   \<and> PML4E_GET_ADDRESS cr3 va AND 7 = 0
   \<and> unat (cr3 AND TABLE_BASE_MASK) \<le> unat (PML4E_GET_ADDRESS cr3 va)
   \<and> unat (PML4E_GET_ADDRESS cr3 va) + 8 \<le> unat (cr3 AND TABLE_BASE_MASK) + 4096
   \<and> PDPTE_GET_ADDRESS pml4e va = (pml4e AND TABLE_BASE_MASK) OR (PDPTE_GET_INDEX va * 8)
   \<and> (pml4e AND TABLE_BASE_MASK) AND 0xFFF = 0
   \<and> unat (PDPTE_GET_INDEX va) < 512
   \<and> PDPTE_GET_ADDRESS pml4e va AND 7 = 0
   \<and> unat (pml4e AND TABLE_BASE_MASK) \<le> unat (PDPTE_GET_ADDRESS pml4e va)
   \<and> unat (PDPTE_GET_ADDRESS pml4e va) + 8 \<le> unat (pml4e AND TABLE_BASE_MASK) + 4096
   \<and> PDE_GET_ADDRESS pdpte va = (pdpte AND TABLE_BASE_MASK) OR (PDE_GET_INDEX va * 8)
   \<and> (pdpte AND TABLE_BASE_MASK) AND 0xFFF = 0
   \<and> unat (PDE_GET_INDEX va) < 512
   \<and> PDE_GET_ADDRESS pdpte va AND 7 = 0
   \<and> unat (pdpte AND TABLE_BASE_MASK) \<le> unat (PDE_GET_ADDRESS pdpte va)
   \<and> unat (PDE_GET_ADDRESS pdpte va) + 8 \<le> unat (pdpte AND TABLE_BASE_MASK) + 4096
   \<and> PTE_GET_ADDRESS pde va = (pde AND TABLE_BASE_MASK) OR (PTE_GET_INDEX va * 8)
   \<and> (pde AND TABLE_BASE_MASK) AND 0xFFF = 0
   \<and> unat (PTE_GET_INDEX va) < 512
   \<and> PTE_GET_ADDRESS pde va AND 7 = 0
   \<and> unat (pde AND TABLE_BASE_MASK) \<le> unat (PTE_GET_ADDRESS pde va)
   \<and> unat (PTE_GET_ADDRESS pde va) + 8 \<le> unat (pde AND TABLE_BASE_MASK) + 4096"
proof -
  have l1: "PML4E_GET_ADDRESS cr3 va AND 7 = 0"
    "unat (PML4E_GET_ADDRESS cr3 va)
       = unat (cr3 AND TABLE_BASE_MASK) + 8 * unat (PML4E_GET_INDEX va)"
    unfolding GET_ADDRESS_eq
    by (rule entry_aligned entry_unat, rule GET_INDEX_le)+
  have l2: "PDPTE_GET_ADDRESS pml4e va AND 7 = 0"
    "unat (PDPTE_GET_ADDRESS pml4e va)
       = unat (pml4e AND TABLE_BASE_MASK) + 8 * unat (PDPTE_GET_INDEX va)"
    unfolding GET_ADDRESS_eq
    by (rule entry_aligned entry_unat, rule GET_INDEX_le)+
  have l3: "PDE_GET_ADDRESS pdpte va AND 7 = 0"
    "unat (PDE_GET_ADDRESS pdpte va)
       = unat (pdpte AND TABLE_BASE_MASK) + 8 * unat (PDE_GET_INDEX va)"
    unfolding GET_ADDRESS_eq
    by (rule entry_aligned entry_unat, rule GET_INDEX_le)+
  have l4: "PTE_GET_ADDRESS pde va AND 7 = 0"
    "unat (PTE_GET_ADDRESS pde va)
       = unat (pde AND TABLE_BASE_MASK) + 8 * unat (PTE_GET_INDEX va)"
    unfolding GET_ADDRESS_eq
    by (rule entry_aligned entry_unat, rule GET_INDEX_le)+
  show ?thesis
    using unat_GET_INDEX_le [of va]
    by (simp add: l1 l2 l3 l4 table_base_page_aligned) (simp add: GET_ADDRESS_eq)
qed

text \<open>
  C7. The table base mask is \<open>0x000FFFFFFFFFF000\<close>: it has exactly bits 51:12 set.
  Every \<open>GET_TABLE_BASE\<close> (on CR3, on a PML4E, on a PDPTE and on a PDE) applies this
  same mask, so its result has the low 12 bits zero.
\<close>

theorem GET_TABLE_BASE_mask:
  "TABLE_BASE_MASK = 0x000FFFFFFFFFF000
   \<and> bit TABLE_BASE_MASK n = (12 \<le> n \<and> n < 52)
   \<and> PML4E_GET_TABLE_BASE cr3 = cr3 AND TABLE_BASE_MASK
   \<and> PDPTE_GET_TABLE_BASE pml4e = pml4e AND TABLE_BASE_MASK
   \<and> PDE_GET_TABLE_BASE pdpte = pdpte AND TABLE_BASE_MASK
   \<and> PTE_GET_TABLE_BASE pde = pde AND TABLE_BASE_MASK
   \<and> PML4E_GET_TABLE_BASE cr3 AND 0xFFF = 0
   \<and> PDPTE_GET_TABLE_BASE pml4e AND 0xFFF = 0
   \<and> PDE_GET_TABLE_BASE pdpte AND 0xFFF = 0
   \<and> PTE_GET_TABLE_BASE pde AND 0xFFF = 0"
  by (simp add: GET_TABLE_BASE_eq table_base_page_aligned bit_TABLE_BASE_MASK)
    (simp add: TABLE_BASE_MASK_def)

text \<open>
  C8. The large-page leaf masks clear the low bits up to the page-size boundary: the
  1 GiB mask has exactly bits 51:30 set (bits 29:0 clear), the 2 MiB mask exactly bits
  51:21 (bits 20:0 clear), while the table base mask has exactly bits 51:12 set.
\<close>

theorem large_page_masks_bits:
  "bit PDPTE_GB_PHYS_ADDRESS_MASK n = (30 \<le> n \<and> n < 52)
   \<and> bit PDE_MB_PHYS_ADDRESS_MASK n = (21 \<le> n \<and> n < 52)
   \<and> bit TABLE_BASE_MASK n = (12 \<le> n \<and> n < 52)"
  by (simp add: bit_GB_PHYS_ADDRESS_MASK bit_MB_PHYS_ADDRESS_MASK bit_TABLE_BASE_MASK)

text \<open>
  C9. For every 64-bit virtual address, each of the four \<open>GET_INDEX\<close> functions
  returns a value between 0 and 511.
\<close>

theorem GET_INDEX_range:
  "unat (PML4E_GET_INDEX va) \<le> 511 \<and> unat (PDPTE_GET_INDEX va) \<le> 511
   \<and> unat (PDE_GET_INDEX va) \<le> 511 \<and> unat (PTE_GET_INDEX va) \<le> 511"
  by (simp add: unat_GET_INDEX_le)

text \<open>
  C10. Every address the header computes has bits 63:52 clear, whatever the inputs: the
  four \<open>GET_TABLE_BASE\<close>, the four entry-address \<open>GET_ADDRESS\<close> and the three leaf
  \<open>GET_ADDRESS\<close> (1 GiB, 2 MiB, 4 KiB).
\<close>

theorem addresses_within_52_bits:
  "PML4E_GET_TABLE_BASE x1 AND 0xFFF0000000000000 = 0
   \<and> PDPTE_GET_TABLE_BASE x2 AND 0xFFF0000000000000 = 0
   \<and> PDE_GET_TABLE_BASE x3 AND 0xFFF0000000000000 = 0
   \<and> PTE_GET_TABLE_BASE x4 AND 0xFFF0000000000000 = 0
   \<and> PML4E_GET_ADDRESS x5 va5 AND 0xFFF0000000000000 = 0
   \<and> PDPTE_GET_ADDRESS x6 va6 AND 0xFFF0000000000000 = 0
   \<and> PDE_GET_ADDRESS x7 va7 AND 0xFFF0000000000000 = 0
   \<and> PTE_GET_ADDRESS x8 va8 AND 0xFFF0000000000000 = 0
   \<and> PDPTE_GB_GET_ADDRESS x9 va9 AND 0xFFF0000000000000 = 0
   \<and> PDE_MB_GET_ADDRESS x10 va10 AND 0xFFF0000000000000 = 0
   \<and> PE_GET_ADDRESS x11 va11 AND 0xFFF0000000000000 = 0"
  by (simp add: GET_TABLE_BASE_eq GET_ADDRESS_eq table_base_high_clear leaf_high_clear
      entry_high_clear [OF GET_INDEX_le(1)] entry_high_clear [OF GET_INDEX_le(2)]
      entry_high_clear [OF GET_INDEX_le(3)] entry_high_clear [OF GET_INDEX_le(4)])

text \<open>
  C6. For every 64-bit entry value, \<open>PDPTE::IS_LARGE_PAGE\<close> and \<open>PDE::IS_LARGE_PAGE\<close>
  are true exactly when the PageSize bit (bit 7, the constant \<open>PS\<close> of both
  namespaces) is set, and the decoder's leaf test at these two levels is that bit. A
  PTE is a leaf whatever its value is (its bit 7 is the PAT flag), and a PML4E is never
  a leaf, whatever its value is.
\<close>

theorem IS_LARGE_PAGE_iff_PS:
  "PDPTE_IS_LARGE_PAGE entry = bit entry 7
   \<and> PDE_IS_LARGE_PAGE entry = bit entry 7
   \<and> PDPTE_PS = 0x80 \<and> PDE_PS = 0x80 \<and> PTE_PAT = 0x80
   \<and> is_leaf (decode PDPTE entry) = bit entry 7
   \<and> is_leaf (decode PDE entry) = bit entry 7
   \<and> is_leaf (decode PTE entry)
   \<and> \<not> is_leaf (decode PML4 entry)"
  by (simp add: IS_LARGE_PAGE_bit PS_eq decode_def Let_def)
    (simp add: PTE_PAT_def shl_def)

section \<open>Properties of the walker\<close>

lemma PRESENT_eq: "PRESENT lv = 2 ^ 0"
  by (cases lv) (simp_all add: PML4E_PRESENT_def PDPTE_PRESENT_def PDE_PRESENT_def
      PTE_PRESENT_def shl_def)

lemma present_decode: "present (decode lv e) = bit e 0"
  unfolding decode_def Let_def PRESENT_eq
  by (simp only: decoded.simps and_exp_eq_0_iff_not_bit not_not)

lemma is_leaf_decode:
  "is_leaf (decode PML4 e) = False" "is_leaf (decode PDPTE e) = bit e 7"
  "is_leaf (decode PDE e) = bit e 7" "is_leaf (decode PTE e) = True"
  by (simp_all add: decode_def Let_def IS_LARGE_PAGE_bit)

lemma next_table_decode:
  "compute_entry_address (next_or_frame_base (decode PML4 e)) (PDPTE_GET_INDEX va)
     = PDPTE_GET_ADDRESS e va"
  "\<not> bit e 7 \<Longrightarrow>
   compute_entry_address (next_or_frame_base (decode PDPTE e)) (PDE_GET_INDEX va)
     = PDE_GET_ADDRESS e va"
  "\<not> bit e 7 \<Longrightarrow>
   compute_entry_address (next_or_frame_base (decode PDE e)) (PTE_GET_INDEX va)
     = PTE_GET_ADDRESS e va"
  by (simp_all add: decode_def Let_def compute_entry_address_def IS_LARGE_PAGE_bit GET_ADDRESS_eq)

lemma root_entry_address:
  "compute_entry_address (table_root AND TABLE_BASE_MASK) (PML4E_GET_INDEX va)
     = PML4E_GET_ADDRESS table_root va"
  by (simp add: compute_entry_address_def GET_ADDRESS_eq)

lemma translate_4KiB:
  assumes "read (PML4E_GET_ADDRESS table_root va) = Inr pml4e" and "bit pml4e 0"
    and "read (PDPTE_GET_ADDRESS pml4e va) = Inr pdpte" and "bit pdpte 0" and "\<not> bit pdpte 7"
    and "read (PDE_GET_ADDRESS pdpte va) = Inr pde" and "bit pde 0" and "\<not> bit pde 7"
    and "read (PTE_GET_ADDRESS pde va) = Inr pte" and "bit pte 0"
  shows "translate table_root va read = Resolved (PE_GET_ADDRESS pte va) Page_4KiB pte"
  using assms
  by (simp add: translate_def PML4_step_def PDPTE_step_def PDE_step_def PTE_step_def
      root_entry_address next_table_decode present_decode is_leaf_decode)
    (simp add: decode_def PE_GET_ADDRESS_def)

lemma translate_2MiB:
  assumes "read (PML4E_GET_ADDRESS table_root va) = Inr pml4e" and "bit pml4e 0"
    and "read (PDPTE_GET_ADDRESS pml4e va) = Inr pdpte" and "bit pdpte 0" and "\<not> bit pdpte 7"
    and "read (PDE_GET_ADDRESS pdpte va) = Inr pde" and "bit pde 0" and "bit pde 7"
  shows "translate table_root va read = Resolved (PDE_MB_GET_ADDRESS pde va) Page_2MiB pde"
  using assms
  by (simp add: translate_def PML4_step_def PDPTE_step_def PDE_step_def
      root_entry_address next_table_decode present_decode is_leaf_decode)
    (simp add: decode_def PDE_MB_GET_ADDRESS_def IS_LARGE_PAGE_bit)

lemma translate_1GiB:
  assumes "read (PML4E_GET_ADDRESS table_root va) = Inr pml4e" and "bit pml4e 0"
    and "read (PDPTE_GET_ADDRESS pml4e va) = Inr pdpte" and "bit pdpte 0" and "bit pdpte 7"
  shows "translate table_root va read = Resolved (PDPTE_GB_GET_ADDRESS pdpte va) Page_1GiB pdpte"
  using assms
  by (simp add: translate_def PML4_step_def PDPTE_step_def
      root_entry_address next_table_decode present_decode is_leaf_decode)
    (simp add: decode_def PDPTE_GB_GET_ADDRESS_def IS_LARGE_PAGE_bit)


text \<open>
  C4. On a table root whose PML4 entry, as the read capability returns it, has the
  Present bit (bit 0) clear, \<open>translate\<close> returns \<open>Fault{level=PML4, reason=NotPresent}\<close>,
  for every virtual address and whatever the other bits of the entry are.
\<close>

theorem translate_PML4_not_present:
  assumes "read (PML4E_GET_ADDRESS table_root va) = Inr pml4e"
    and "\<not> bit pml4e 0"
  shows "translate table_root va read = Fault PML4 NotPresent"
  using assms
  by (simp add: translate_def PML4_step_def root_entry_address present_decode)

theorem translate_PML4_not_present_witness:
  "(\<lambda>a. Inr 0xFFFFFFFFFFFFFFFE) (PML4E_GET_ADDRESS 0x1000 0x00007F8040201ABC)
     = (Inr 0xFFFFFFFFFFFFFFFE :: unit + u64)
   \<and> \<not> bit (0xFFFFFFFFFFFFFFFE :: u64) 0
   \<and> translate 0x1000 0x00007F8040201ABC (\<lambda>a. Inr 0xFFFFFFFFFFFFFFFE :: unit + u64)
       = Fault PML4 NotPresent"
  using translate_PML4_not_present
    [of "\<lambda>a. Inr 0xFFFFFFFFFFFFFFFE :: unit + u64" "0x1000" "0x00007F8040201ABC" "0xFFFFFFFFFFFFFFFE"]
  by simp

text \<open>
  C5. When the reads of the PML4E and of the PDPTE succeed with present entries, the
  PDPTE is not a 1 GiB leaf, and the read capability fails at the PDE step, the walk
  returns \<open>Fault{level=PDE, reason=ReadError}\<close> with the cause of the failure, which
  is not \<open>NotPresent\<close>, and it has performed exactly the three reads up to the PDE: no
  read of a PTE follows.
\<close>

theorem translate_PDE_read_error:
  assumes "read (PML4E_GET_ADDRESS table_root va) = Inr pml4e" and "bit pml4e 0"
    and "read (PDPTE_GET_ADDRESS pml4e va) = Inr pdpte" and "bit pdpte 0" and "\<not> bit pdpte 7"
    and "read (PDE_GET_ADDRESS pdpte va) = Inl cause"
  shows "translate table_root va read = Fault PDE (ReadError cause)
    \<and> ReadError cause \<noteq> NotPresent
    \<and> translate_reads table_root va read
        = [PML4E_GET_ADDRESS table_root va, PDPTE_GET_ADDRESS pml4e va, PDE_GET_ADDRESS pdpte va]"
  using assms
  by (simp add: translate_def translate_reads_def PML4_step_def PDPTE_step_def PDE_step_def
      root_entry_address next_table_decode present_decode is_leaf_decode)


theorem translate_PDE_read_error_witness:
  "(\<lambda>a :: u64. if a = 0x1008 then Inr (0x2003 :: u64)
       else if a = 0x2008 then Inr 0x3003 else Inl ''bus error'')
     (PML4E_GET_ADDRESS 0x1000 0x8040201000) = Inr 0x2003
   \<and> bit (0x2003 :: u64) 0
   \<and> (\<lambda>a :: u64. if a = 0x1008 then Inr (0x2003 :: u64)
       else if a = 0x2008 then Inr 0x3003 else Inl ''bus error'')
     (PDPTE_GET_ADDRESS 0x2003 0x8040201000) = Inr 0x3003
   \<and> bit (0x3003 :: u64) 0 \<and> \<not> bit (0x3003 :: u64) 7
   \<and> (\<lambda>a :: u64. if a = 0x1008 then Inr (0x2003 :: u64)
       else if a = 0x2008 then Inr 0x3003 else Inl ''bus error'')
     (PDE_GET_ADDRESS 0x3003 0x8040201000) = Inl ''bus error''
   \<and> translate 0x1000 0x8040201000
     (\<lambda>a. if a = 0x1008 then Inr 0x2003 else if a = 0x2008 then Inr 0x3003
          else Inl ''bus error'')
     = Fault PDE (ReadError ''bus error'')
   \<and> translate_reads 0x1000 0x8040201000
     (\<lambda>a. if a = 0x1008 then Inr 0x2003 else if a = 0x2008 then Inr 0x3003
          else Inl ''bus error'')
     = [0x1008, 0x2008, 0x3008]"
proof -
  let ?read = "\<lambda>a :: u64. if a = 0x1008 then Inr (0x2003 :: u64)
                 else if a = 0x2008 then Inr 0x3003 else Inl ''bus error''"
  have a1: "PML4E_GET_ADDRESS 0x1000 0x8040201000 = 0x1008"
    by (simp add: PML4E_GET_ADDRESS_def PML4E_GET_TABLE_BASE_def PML4E_GET_INDEX_def
        CR3_PML4_BASE_MASK_def TABLE_BASE_MASK_def VA_PML4E_INDEX_def VA_PSE_MASK_def shr_def)
  have a2: "PDPTE_GET_ADDRESS 0x2003 0x8040201000 = 0x2008"
    by (simp add: PDPTE_GET_ADDRESS_def PDPTE_GET_TABLE_BASE_def PDPTE_GET_INDEX_def
        PML4E_PDPTE_ADDRESS_MASK_def TABLE_BASE_MASK_def VA_PDPTE_INDEX_def VA_PSE_MASK_def
        shr_def)
  have a3: "PDE_GET_ADDRESS 0x3003 0x8040201000 = 0x3008"
    by (simp add: PDE_GET_ADDRESS_def PDE_GET_TABLE_BASE_def PDE_GET_INDEX_def
        PDPTE_PDE_ADDRESS_MASK_def TABLE_BASE_MASK_def VA_PDE_INDEX_def VA_PSE_MASK_def shr_def)
  have h1: "?read (PML4E_GET_ADDRESS 0x1000 0x8040201000) = Inr 0x2003"
    by (simp add: a1)
  have h2: "bit (0x2003 :: u64) 0" by simp
  have h3: "?read (PDPTE_GET_ADDRESS 0x2003 0x8040201000) = Inr 0x3003"
    by (simp add: a2)
  have h4: "bit (0x3003 :: u64) 0" by simp
  have h5: "\<not> bit (0x3003 :: u64) 7" by (simp add: bit_numeral_iff bit_iff_odd)
  have h6: "?read (PDE_GET_ADDRESS 0x3003 0x8040201000) = Inl ''bus error''"
    by (simp add: a3)
  show ?thesis
    using translate_PDE_read_error [OF h1 h2 h3 h4 h5 h6] h1 h2 h3 h4 h5 h6
    by (simp add: a1 a2 a3)
qed

end
